theory Spec2Isabelle
  imports Main "HOL-Library.Sublist"
begin

section \<open>Python values\<close>

text \<open>
  The values that flow through \<^verbatim>\<open>handlers.py\<close>: parsed JSON bodies, the entries of the
  parameter dictionary and the results of the tool functions. A dictionary is an
  association list in insertion order with unique keys; integers are unbounded.
  Non-integral JSON numbers are outside the model.
\<close>

datatype pyval =
    PNone
  | PBool bool
  | PInt int
  | PStr string
  | PList "pyval list"
  | PDict "(string \<times> pyval) list"

type_synonym params = "(string \<times> pyval) list"

text \<open>Truthiness, as \<^verbatim>\<open>not x\<close> and \<^verbatim>\<open>x or y\<close> test it.\<close>

fun truthy :: "pyval \<Rightarrow> bool" where
  "truthy PNone = False"
| "truthy (PBool b) = b"
| "truthy (PInt i) = (i \<noteq> 0)"
| "truthy (PStr s) = (s \<noteq> [])"
| "truthy (PList xs) = (xs \<noteq> [])"
| "truthy (PDict d) = (d \<noteq> [])"

fun type_name :: "pyval \<Rightarrow> string" where
  "type_name PNone = ''NoneType''"
| "type_name (PBool b) = ''bool''"
| "type_name (PInt i) = ''int''"
| "type_name (PStr s) = ''str''"
| "type_name (PList xs) = ''list''"
| "type_name (PDict d) = ''dict''"

definition quote :: char where
  "quote = CHR 0x27"

text \<open>
  \<^verbatim>\<open>x.get(k, default)\<close>: a dictionary answers; every other value raises AttributeError,
  whose text is returned on the left.
\<close>

fun py_get :: "pyval \<Rightarrow> string \<Rightarrow> pyval \<Rightarrow> string + pyval" where
  "py_get (PDict d) k dflt = Inr (case map_of d k of None \<Rightarrow> dflt | Some v \<Rightarrow> v)"
| "py_get v k dflt =
     Inl (quote # type_name v @ quote # '' object has no attribute '' @ quote # ''get'' @ [quote])"

text \<open>
  \<^verbatim>\<open>d[k] = v\<close>: an existing key keeps its position and takes the new value, a new key is
  added at the end.
\<close>

fun dict_set :: "(string \<times> 'v) list \<Rightarrow> string \<Rightarrow> 'v \<Rightarrow> (string \<times> 'v) list" where
  "dict_set [] k v = [(k, v)]"
| "dict_set ((k', v') # d) k v =
     (if k' = k then (k, v) # d else (k', v') # dict_set d k v)"

section \<open>The environment of a call\<close>

text \<open>
  Every failure the handlers raise themselves is a \<^verbatim>\<open>ValueError\<close> carrying a message.
\<close>

datatype exn = ValueError string

text \<open>
  What \<^verbatim>\<open>httpx\<close> hands back: \<^verbatim>\<open>resp.status_code\<close>, \<^verbatim>\<open>resp.text\<close> and the outcome of
  \<^verbatim>\<open>resp.json()\<close>, which is \<open>None\<close> when that call raises.
\<close>

record response =
  status_code :: int
  resp_text :: string
  resp_json :: "pyval option"

text \<open>
  \<^verbatim>\<open>await client.get(url, params=params)\<close> returns a response, raises an
  \<^verbatim>\<open>httpx.RequestError\<close> (connection, timeout, DNS), or raises some other \<^verbatim>\<open>Exception\<close>;
  both exceptions carry their text \<^verbatim>\<open>str(e)\<close>.
\<close>

datatype outcome =
    Response response
  | RequestError string
  | OtherException string

text \<open>
  The module-level \<^verbatim>\<open>WEATHER_API_KEY\<close> (\<^verbatim>\<open>os.getenv\<close> gives \<open>None\<close> or a string), the
  network behind \<^verbatim>\<open>client.get\<close>, and the text Python's string formatting gives a value
  that is not a string (for a string it is the string itself, see \<open>py_str\<close>).
\<close>

record env =
  WEATHER_API_KEY :: "string option"
  client_get :: "string \<Rightarrow> params \<Rightarrow> outcome"
  str_of :: "pyval \<Rightarrow> string"

definition py_str :: "env \<Rightarrow> pyval \<Rightarrow> string" where
  "py_str e v = (case v of PStr s \<Rightarrow> s | _ \<Rightarrow> str_of e v)"

section \<open>fetch\<close>

text \<open>
  A run of \<^verbatim>\<open>fetch\<close>: what it returns or raises, the caller's parameter dictionary as
  it is after the call, and the GET requests issued (URL and query parameters).
\<close>

record fetch_run =
  fr_result :: "exn + pyval"
  fr_params :: params
  fr_gets :: "(string \<times> params) list"

text \<open>\<^verbatim>\<open>(data or {}).get("error", {}).get("message", resp.text)\<close>\<close>

definition error_detail :: "pyval \<Rightarrow> string \<Rightarrow> string + pyval" where
  "error_detail data txt =
     (case py_get (if truthy data then data else PDict []) ''error'' (PDict []) of
        Inl a \<Rightarrow> Inl a
      | Inr err \<Rightarrow> py_get err ''message'' (PStr txt))"

text \<open>
  The body of the \<^verbatim>\<open>try\<close> once a response has arrived. The \<^verbatim>\<open>ValueError\<close> raised for a
  status other than 200 and an AttributeError of the lookup are both raised inside the
  \<^verbatim>\<open>try\<close>; neither is an \<^verbatim>\<open>httpx.RequestError\<close>, so \<^verbatim>\<open>except Exception\<close> catches them and
  raises \<^verbatim>\<open>ValueError(f"Unexpected error: {e}")\<close>.
\<close>

definition handle_response :: "env \<Rightarrow> response \<Rightarrow> exn + pyval" where
  "handle_response e resp =
     (let data = (case resp_json resp of None \<Rightarrow> PNone | Some j \<Rightarrow> j) in
      if status_code resp \<noteq> 200 then
        (case error_detail data (resp_text resp) of
           Inl a \<Rightarrow> Inl (ValueError (''Unexpected error: '' @ a))
         | Inr detail \<Rightarrow>
             Inl (ValueError (''Unexpected error: '' @ ''WeatherAPI error: '' @ py_str e detail)))
      else Inr data)"

definition fetch :: "env \<Rightarrow> string \<Rightarrow> params \<Rightarrow> fetch_run" where
  "fetch e endpoint params =
     (if (case WEATHER_API_KEY e of None \<Rightarrow> True | Some k \<Rightarrow> k = []) then
        \<lparr>fr_result = Inl (ValueError ''Weather API key not set.''),
         fr_params = params, fr_gets = []\<rparr>
      else
        let params' = dict_set params ''key'' (PStr (the (WEATHER_API_KEY e)));
            url = ''https://api.weatherapi.com/v1/'' @ endpoint
        in \<lparr>fr_result =
               (case client_get e url params' of
                  Response resp \<Rightarrow> handle_response e resp
                | RequestError c \<Rightarrow> Inl (ValueError (''Request error: '' @ c))
                | OtherException c \<Rightarrow> Inl (ValueError (''Unexpected error: '' @ c))),
            fr_params = params',
            fr_gets = [(url, params')]\<rparr>)"

section \<open>The tool functions\<close>

text \<open>
  A run of a tool function: what it returns or raises, the calls of \<^verbatim>\<open>fetch\<close> it made
  (endpoint and the dictionary as passed), and the GET requests issued.

  An argument with a default is an option, \<open>None\<close> for an argument left out. \<^verbatim>\<open>query\<close> has
  no default: its \<open>None\<close> is Python's \<^verbatim>\<open>None\<close> passed for an absent location.
\<close>

record tool_run =
  tr_result :: "exn + pyval"
  tr_fetches :: "(string \<times> params) list"
  tr_gets :: "(string \<times> params) list"

definition rejected :: "string \<Rightarrow> tool_run" where
  "rejected msg = \<lparr>tr_result = Inl (ValueError msg), tr_fetches = [], tr_gets = []\<rparr>"

definition not_query :: "string option \<Rightarrow> bool" where
  "not_query query = (case query of None \<Rightarrow> True | Some q \<Rightarrow> q = [])"

definition yes_no :: "bool option \<Rightarrow> pyval" where
  "yes_no flag = PStr (if (case flag of None \<Rightarrow> False | Some b \<Rightarrow> b) then ''yes'' else ''no'')"

definition get_current_weather :: "env \<Rightarrow> string option \<Rightarrow> bool option \<Rightarrow> tool_run" where
  "get_current_weather e query include_air_quality =
     (if not_query query then rejected ''query with location is required.''
      else
        let ps = [(''q'', PStr (the query)), (''aqi'', yes_no include_air_quality)];
            r = fetch e ''current.json'' ps
        in \<lparr>tr_result = fr_result r, tr_fetches = [(''current.json'', ps)],
            tr_gets = fr_gets r\<rparr>)"

definition get_weather_forecast ::
  "env \<Rightarrow> string option \<Rightarrow> int option \<Rightarrow> bool option \<Rightarrow> bool option \<Rightarrow> tool_run" where
  "get_weather_forecast e query days_opt include_air_quality include_alerts =
     (let days = (case days_opt of None \<Rightarrow> 1 | Some d \<Rightarrow> d) in
      if not_query query then rejected ''query with location is required.''
      else if days < 1 \<or> days > 3 then
        rejected (quote # ''days'' @ quote # '' must be between 1 and 3.'')
      else
        let ps = [(''q'', PStr (the query)), (''days'', PInt days),
                  (''aqi'', yes_no include_air_quality),
                  (''alerts'', yes_no include_alerts)];
            r = fetch e ''forecast.json'' ps
        in \<lparr>tr_result = fr_result r, tr_fetches = [(''forecast.json'', ps)],
            tr_gets = fr_gets r\<rparr>)"

definition search_locations :: "env \<Rightarrow> string option \<Rightarrow> tool_run" where
  "search_locations e query =
     (if not_query query then rejected ''query with location is required.''
      else
        let ps = [(''q'', PStr (the query))];
            r = fetch e ''search.json'' ps
        in \<lparr>tr_result =
               (case fr_result r of
                  Inl x \<Rightarrow> Inl x
                | Inr locations \<Rightarrow> Inr (PDict [(''items'', locations)])),
            tr_fetches = [(''search.json'', ps)],
            tr_gets = fr_gets r\<rparr>)"

section \<open>The dispatch table\<close>

text \<open>
  The values of \<^verbatim>\<open>TOOL_FUNCTIONS\<close> are function objects; a constructor stands for each of
  the three tool functions the module defines. The table is the dictionary literal, in
  its order.
\<close>

datatype tool_function = Get_current_weather | Get_weather_forecast | Search_locations

definition TOOL_FUNCTIONS :: "(string \<times> tool_function) list" where
  "TOOL_FUNCTIONS =
     [(''get_weather'', Get_weather_forecast),
      (''search_locations'', Search_locations)]"

section \<open>Auxiliary definitions for the statements\<close>

text \<open>
  An environment for examples: the given key, a network that answers every request with
  the same outcome, and a formatter that renders every non-string value as the empty text.
\<close>

definition answering :: "string option \<Rightarrow> outcome \<Rightarrow> env" where
  "answering key out =
     \<lparr>WEATHER_API_KEY = key, client_get = (\<lambda>url ps. out), str_of = (\<lambda>v. [])\<rparr>"

text \<open>
  The upstream error detail field: the entry \<^verbatim>\<open>message\<close> of the mapping under \<^verbatim>\<open>error\<close>
  in a body that parsed to a mapping.
\<close>

definition detail_field :: "response \<Rightarrow> pyval option" where
  "detail_field r =
     (case resp_json r of
        Some (PDict d) \<Rightarrow>
          (case map_of d ''error'' of
             Some (PDict err) \<Rightarrow> map_of err ''message''
           | _ \<Rightarrow> None)
      | _ \<Rightarrow> None)"


section \<open>Facts about the dictionary update and fetch\<close>

lemma map_of_dict_set: "map_of (dict_set d k v) = (map_of d)(k \<mapsto> v)"
  by (induction d k v rule: dict_set.induct) auto

lemma filter_dict_set:
  "filter (\<lambda>p. fst p \<noteq> k) (dict_set d k v) = filter (\<lambda>p. fst p \<noteq> k) d"
  by (induction d k v rule: dict_set.induct) auto


lemma fetch_no_key:
  assumes "WEATHER_API_KEY e = None \<or> WEATHER_API_KEY e = Some []"
  shows "fetch e endpoint ps =
           \<lparr>fr_result = Inl (ValueError ''Weather API key not set.''),
            fr_params = ps, fr_gets = []\<rparr>"
  using assms by (auto simp: fetch_def)

lemma fetch_with_key:
  assumes "WEATHER_API_KEY e = Some k" and "k \<noteq> []"
  shows "fetch e endpoint ps =
           \<lparr>fr_result =
              (case client_get e (''https://api.weatherapi.com/v1/'' @ endpoint) (dict_set ps ''key'' (PStr k)) of
                 Response resp \<Rightarrow> handle_response e resp
               | RequestError c \<Rightarrow> Inl (ValueError (''Request error: '' @ c))
               | OtherException c \<Rightarrow> Inl (ValueError (''Unexpected error: '' @ c))),
            fr_params = dict_set ps ''key'' (PStr k),
            fr_gets = [(''https://api.weatherapi.com/v1/'' @ endpoint, dict_set ps ''key'' (PStr k))]\<rparr>"
  using assms by (simp add: fetch_def Let_def )


lemma handle_response_non_200:
  assumes "status_code r \<noteq> 200"
  shows "\<exists>m. handle_response e r = Inl (ValueError (''Unexpected error: '' @ m))"
  using assms by (auto simp: handle_response_def Let_def split: sum.splits)

lemma handle_response_detail:
  assumes "status_code r \<noteq> 200" and "detail_field r = Some m"
  shows "handle_response e r =
           Inl (ValueError (''Unexpected error: WeatherAPI error: '' @ py_str e m))"
  using assms
  by (auto simp: handle_response_def detail_field_def error_detail_def Let_def
           split: option.splits pyval.splits)

lemma error_detail_falsy:
  assumes "\<not> truthy data"
  shows "error_detail data txt = Inr (PStr txt)"
  using assms by (simp add: error_detail_def)

lemma error_detail_no_error:
  assumes "map_of d ''error'' = None"
  shows "error_detail (PDict d) txt = Inr (PStr txt)"
  using assms by (simp add: error_detail_def)

lemma error_detail_no_message:
  assumes "map_of d ''error'' = Some (PDict err)" and "map_of err ''message'' = None"
  shows "error_detail (PDict d) txt = Inr (PStr txt)"
  using assms by (auto simp: error_detail_def)

lemma handle_response_text:
  assumes "status_code r \<noteq> 200"
    and "error_detail (case resp_json r of None \<Rightarrow> PNone | Some j \<Rightarrow> j) (resp_text r) =
           Inr (PStr (resp_text r))"
  shows "handle_response e r =
           Inl (ValueError (''Unexpected error: WeatherAPI error: '' @ resp_text r))"
  using assms by (simp add: handle_response_def Let_def py_str_def)

section \<open>Validation in the tool functions\<close>

text \<open>
  Claim C1. For a non-empty query, \<^verbatim>\<open>get_weather_forecast\<close> with a day count below 1 or
  above 3 raises the validation error and calls neither \<^verbatim>\<open>fetch\<close> nor the network; with
  a day count of 1, 2 or 3 it passes validation and hands that count to \<^verbatim>\<open>fetch\<close>; a call
  without a day count behaves as the call with day count 1.
\<close>

theorem forecast_days_validation:
  assumes "q \<noteq> []"
  shows "(d < 1 \<or> d > 3 \<longrightarrow>
            get_weather_forecast e (Some q) (Some d) aq al =
              \<lparr>tr_result =
                 Inl (ValueError (quote # ''days'' @ quote # '' must be between 1 and 3.'')),
               tr_fetches = [], tr_gets = []\<rparr>) \<and>
         (d \<in> {1, 2, 3} \<longrightarrow>
            tr_fetches (get_weather_forecast e (Some q) (Some d) aq al) =
              [(''forecast.json'',
                [(''q'', PStr q), (''days'', PInt d), (''aqi'', yes_no aq),
                 (''alerts'', yes_no al)])] \<and>
            tr_result (get_weather_forecast e (Some q) (Some d) aq al) =
              fr_result (fetch e ''forecast.json''
                [(''q'', PStr q), (''days'', PInt d), (''aqi'', yes_no aq),
                 (''alerts'', yes_no al)])) \<and>
         get_weather_forecast e (Some q) None aq al =
           get_weather_forecast e (Some q) (Some 1) aq al"
  using assms
  by (auto simp: get_weather_forecast_def not_query_def rejected_def Let_def)

theorem forecast_days_validation_witness:
  "get_weather_forecast (answering (Some ''k'') (RequestError ''down''))
       (Some ''Tokyo'') (Some 5) None None =
     \<lparr>tr_result =
        Inl (ValueError (quote # ''days'' @ quote # '' must be between 1 and 3.'')),
      tr_fetches = [], tr_gets = []\<rparr> \<and>
   tr_fetches (get_weather_forecast (answering (Some ''k'') (RequestError ''down''))
       (Some ''Tokyo'') (Some 2) None None) =
     [(''forecast.json'',
       [(''q'', PStr ''Tokyo''), (''days'', PInt 2), (''aqi'', PStr ''no''),
        (''alerts'', PStr ''no'')])] \<and>
   tr_fetches (get_weather_forecast (answering (Some ''k'') (RequestError ''down''))
       (Some ''Tokyo'') None None None) =
     [(''forecast.json'',
       [(''q'', PStr ''Tokyo''), (''days'', PInt 1), (''aqi'', PStr ''no''),
        (''alerts'', PStr ''no'')])]"
proof -
  have ne: "''Tokyo'' \<noteq> []" by simp
  note a = forecast_days_validation [OF ne, of 5 "answering (Some ''k'') (RequestError ''down'')" None None]
  note b = forecast_days_validation [OF ne, of 2 "answering (Some ''k'') (RequestError ''down'')" None None]
  note c = forecast_days_validation [OF ne, of 1 "answering (Some ''k'') (RequestError ''down'')" None None]
  show ?thesis using a b c by (simp add: yes_no_def)
qed

text \<open>
  Claim C2. Each of the three tool functions, called with an empty or absent query,
  raises the validation error without calling \<^verbatim>\<open>fetch\<close> and without any request.
\<close>

theorem empty_query_rejected:
  assumes "query = None \<or> query = Some []"
  shows "get_current_weather e query aq =
           \<lparr>tr_result = Inl (ValueError ''query with location is required.''),
            tr_fetches = [], tr_gets = []\<rparr> \<and>
         get_weather_forecast e query days aq al =
           \<lparr>tr_result = Inl (ValueError ''query with location is required.''),
            tr_fetches = [], tr_gets = []\<rparr> \<and>
         search_locations e query =
           \<lparr>tr_result = Inl (ValueError ''query with location is required.''),
            tr_fetches = [], tr_gets = []\<rparr>"
  using assms
  by (auto simp: get_current_weather_def get_weather_forecast_def search_locations_def
        not_query_def rejected_def Let_def)

theorem empty_query_rejected_witness:
  "get_current_weather (answering (Some ''k'') (RequestError ''down'')) (Some []) (Some True) =
     \<lparr>tr_result = Inl (ValueError ''query with location is required.''),
      tr_fetches = [], tr_gets = []\<rparr> \<and>
   get_weather_forecast (answering (Some ''k'') (RequestError ''down'')) None (Some 5) None None =
     \<lparr>tr_result = Inl (ValueError ''query with location is required.''),
      tr_fetches = [], tr_gets = []\<rparr> \<and>
   search_locations (answering (Some ''k'') (RequestError ''down'')) (Some []) =
     \<lparr>tr_result = Inl (ValueError ''query with location is required.''),
      tr_fetches = [], tr_gets = []\<rparr>"
proof -
  have a: "Some [] = None \<or> Some ([]::string) = Some []" by simp
  have b: "None = None \<or> (None::string option) = Some []" by simp
  show ?thesis
    using empty_query_rejected [OF a, of "answering (Some ''k'') (RequestError ''down'')"]
      empty_query_rejected [OF b, of "answering (Some ''k'') (RequestError ''down'')"]
    by simp
qed

section \<open>Parameters handed to fetch\<close>





section \<open>The API key\<close>

text \<open>
  Claim C5. With the API key absent (\<open>None\<close> or empty), \<^verbatim>\<open>fetch\<close> raises the configuration
  error, leaves the parameter dictionary alone and issues no request; hence no tool
  function issues a request, and every tool call that passes its own validation raises
  that configuration error.
\<close>

theorem missing_key_fails_before_request:
  assumes "WEATHER_API_KEY e = None \<or> WEATHER_API_KEY e = Some []"
  shows "fetch e endpoint ps =
           \<lparr>fr_result = Inl (ValueError ''Weather API key not set.''),
            fr_params = ps, fr_gets = []\<rparr> \<and>
         tr_gets (get_current_weather e query aq) = [] \<and>
         tr_gets (get_weather_forecast e query days aq al) = [] \<and>
         tr_gets (search_locations e query) = [] \<and>
         (q \<noteq> [] \<longrightarrow>
            tr_result (get_current_weather e (Some q) aq) =
              Inl (ValueError ''Weather API key not set.'') \<and>
            tr_result (search_locations e (Some q)) =
              Inl (ValueError ''Weather API key not set.'')) \<and>
         (q \<noteq> [] \<and> 1 \<le> d \<and> d \<le> 3 \<longrightarrow>
            tr_result (get_weather_forecast e (Some q) (Some d) aq al) =
              Inl (ValueError ''Weather API key not set.''))"
  by (simp add: fetch_no_key [OF assms] get_current_weather_def get_weather_forecast_def
        search_locations_def rejected_def not_query_def Let_def)

theorem missing_key_fails_before_request_witness:
  "fetch (answering None (RequestError ''down'')) ''current.json'' [(''q'', PStr ''Paris'')] =
     \<lparr>fr_result = Inl (ValueError ''Weather API key not set.''),
      fr_params = [(''q'', PStr ''Paris'')], fr_gets = []\<rparr> \<and>
   tr_result (get_current_weather (answering None (RequestError ''down'')) (Some ''Paris'') None) =
     Inl (ValueError ''Weather API key not set.'') \<and>
   tr_result (search_locations (answering None (RequestError ''down'')) (Some ''Paris'')) =
     Inl (ValueError ''Weather API key not set.'') \<and>
   tr_result (get_weather_forecast (answering (Some []) (RequestError ''down''))
       (Some ''Paris'') (Some 2) None None) =
     Inl (ValueError ''Weather API key not set.'') \<and>
   tr_gets (get_weather_forecast (answering (Some []) (RequestError ''down''))
       (Some ''Paris'') (Some 2) None None) = []"
proof -
  have a: "WEATHER_API_KEY (answering None (RequestError ''down'')) = None \<or>
           WEATHER_API_KEY (answering None (RequestError ''down'')) = Some []"
    by (simp add: answering_def)
  have b: "WEATHER_API_KEY (answering (Some []) (RequestError ''down'')) = None \<or>
           WEATHER_API_KEY (answering (Some []) (RequestError ''down'')) = Some []"
    by (simp add: answering_def)
  show ?thesis
    using missing_key_fails_before_request [OF a, where endpoint = "''current.json''"
        and ps = "[(''q'', PStr ''Paris'')]" and aq = None and q = "''Paris''"]
      missing_key_fails_before_request [OF b, where query = "Some ''Paris''"
        and days = "Some 2" and aq = None and al = None and q = "''Paris''" and d = 2]
    by simp
qed

section \<open>fetch with a key\<close>

text \<open>
  Claim C9. With a key configured, \<^verbatim>\<open>fetch\<close> stores the key under \<^verbatim>\<open>key\<close> in the caller's
  own dictionary: after the call that dictionary maps \<^verbatim>\<open>key\<close> to the API key, every other
  key to what it held before, and keeps the other entries in their order; the one GET
  request issued carries exactly this updated dictionary.
\<close>

theorem fetch_adds_key_in_place:
  assumes "WEATHER_API_KEY e = Some k" and "k \<noteq> []"
  shows "map_of (fr_params (fetch e endpoint ps)) ''key'' = Some (PStr k) \<and>
         (\<forall>k'. k' \<noteq> ''key'' \<longrightarrow>
            map_of (fr_params (fetch e endpoint ps)) k' = map_of ps k') \<and>
         filter (\<lambda>p. fst p \<noteq> ''key'') (fr_params (fetch e endpoint ps)) =
           filter (\<lambda>p. fst p \<noteq> ''key'') ps \<and>
         fr_gets (fetch e endpoint ps) =
           [(''https://api.weatherapi.com/v1/'' @ endpoint, fr_params (fetch e endpoint ps))]"
  by (simp add: fetch_with_key [OF assms] map_of_dict_set filter_dict_set)

theorem fetch_adds_key_in_place_witness:
  "map_of (fr_params (fetch (answering (Some ''secret'') (RequestError ''down''))
       ''search.json'' [(''q'', PStr ''Paris'')])) ''key'' = Some (PStr ''secret'') \<and>
   map_of (fr_params (fetch (answering (Some ''secret'') (RequestError ''down''))
       ''search.json'' [(''q'', PStr ''Paris'')])) ''q'' = Some (PStr ''Paris'') \<and>
   fr_gets (fetch (answering (Some ''secret'') (RequestError ''down'')) ''search.json''
       [(''q'', PStr ''Paris'')]) =
     [(''https://api.weatherapi.com/v1/search.json'',
       fr_params (fetch (answering (Some ''secret'') (RequestError ''down''))
         ''search.json'' [(''q'', PStr ''Paris'')]))] \<and>
   fr_params (fetch (answering (Some ''secret'') (RequestError ''down'')) ''search.json''
       [(''q'', PStr ''Paris'')]) =
     [(''q'', PStr ''Paris''), (''key'', PStr ''secret'')]"
proof -
  have a: "WEATHER_API_KEY (answering (Some ''secret'') (RequestError ''down'')) = Some ''secret''"
    by (simp add: answering_def)
  have b: "''secret'' \<noteq> []" by simp
  have c: "fr_params (fetch (answering (Some ''secret'') (RequestError ''down'')) ''search.json''
       [(''q'', PStr ''Paris'')]) = [(''q'', PStr ''Paris''), (''key'', PStr ''secret'')]"
    by (simp add: fetch_def answering_def Let_def)
  have d: "''q'' \<noteq> ''key''" by simp
  from fetch_adds_key_in_place [OF a b, of "''search.json''" "[(''q'', PStr ''Paris'')]"]
  have "map_of (fr_params (fetch (answering (Some ''secret'') (RequestError ''down''))
       ''search.json'' [(''q'', PStr ''Paris'')])) ''key'' = Some (PStr ''secret'')"
    and "map_of (fr_params (fetch (answering (Some ''secret'') (RequestError ''down''))
       ''search.json'' [(''q'', PStr ''Paris'')])) ''q'' = map_of [(''q'', PStr ''Paris'')] ''q''"
    and "fr_gets (fetch (answering (Some ''secret'') (RequestError ''down'')) ''search.json''
       [(''q'', PStr ''Paris'')]) =
     [(''https://api.weatherapi.com/v1/'' @ ''search.json'',
       fr_params (fetch (answering (Some ''secret'') (RequestError ''down''))
         ''search.json'' [(''q'', PStr ''Paris'')]))]"
    using d by blast+
  with c show ?thesis by simp
qed

section \<open>Responses with status 200\<close>

text \<open>
  Claim C10. With a key configured and a response of status 200, \<^verbatim>\<open>fetch\<close> returns
  \<^verbatim>\<open>None\<close> when the body does not parse as JSON, raising nothing, and returns the parsed
  value itself when the body parses.
\<close>

theorem fetch_status_200:
  assumes "WEATHER_API_KEY e = Some k" and "k \<noteq> []"
    and "client_get e (''https://api.weatherapi.com/v1/'' @ endpoint)
           (dict_set ps ''key'' (PStr k)) = Response r"
    and "status_code r = 200"
  shows "(resp_json r = None \<longrightarrow> fr_result (fetch e endpoint ps) = Inr PNone) \<and>
         (\<forall>j. resp_json r = Some j \<longrightarrow> fr_result (fetch e endpoint ps) = Inr j)"
  using assms(3,4)
  by (simp add: fetch_with_key [OF assms(1,2)] handle_response_def)

theorem fetch_status_200_witness:
  "fr_result (fetch (answering (Some ''k'')
       (Response \<lparr>status_code = 200, resp_text = ''<html>'', resp_json = None\<rparr>))
       ''current.json'' [(''q'', PStr ''Paris'')]) = Inr PNone \<and>
   fr_result (fetch (answering (Some ''k'')
       (Response \<lparr>status_code = 200, resp_text = ''{}'',
          resp_json = Some (PDict [(''location'', PStr ''Paris'')])\<rparr>))
       ''current.json'' [(''q'', PStr ''Paris'')]) =
     Inr (PDict [(''location'', PStr ''Paris'')])"
proof -
  have k: "''k'' \<noteq> []" by simp
  have a1: "WEATHER_API_KEY (answering (Some ''k'')
       (Response \<lparr>status_code = 200, resp_text = ''<html>'', resp_json = None\<rparr>)) = Some ''k''"
    by (simp add: answering_def)
  have a2: "client_get (answering (Some ''k'')
       (Response \<lparr>status_code = 200, resp_text = ''<html>'', resp_json = None\<rparr>))
       (''https://api.weatherapi.com/v1/'' @ ''current.json'')
       (dict_set [(''q'', PStr ''Paris'')] ''key'' (PStr ''k'')) =
     Response \<lparr>status_code = 200, resp_text = ''<html>'', resp_json = None\<rparr>"
    by (simp add: answering_def)
  have a3: "status_code \<lparr>status_code = 200, resp_text = ''<html>'', resp_json = None\<rparr> = 200"
    by simp
  have b1: "WEATHER_API_KEY (answering (Some ''k'')
       (Response \<lparr>status_code = 200, resp_text = ''{}'',
          resp_json = Some (PDict [(''location'', PStr ''Paris'')])\<rparr>)) = Some ''k''"
    by (simp add: answering_def)
  have b2: "client_get (answering (Some ''k'')
       (Response \<lparr>status_code = 200, resp_text = ''{}'',
          resp_json = Some (PDict [(''location'', PStr ''Paris'')])\<rparr>))
       (''https://api.weatherapi.com/v1/'' @ ''current.json'')
       (dict_set [(''q'', PStr ''Paris'')] ''key'' (PStr ''k'')) =
     Response \<lparr>status_code = 200, resp_text = ''{}'',
          resp_json = Some (PDict [(''location'', PStr ''Paris'')])\<rparr>"
    by (simp add: answering_def)
  have b3: "status_code \<lparr>status_code = 200, resp_text = ''{}'',
          resp_json = Some (PDict [(''location'', PStr ''Paris'')])\<rparr> = 200"
    by simp
  show ?thesis
    using fetch_status_200 [OF a1 k a2 a3] fetch_status_200 [OF b1 k b2 b3]
    by simp
qed

section \<open>Location search\<close>

text \<open>
  Claim C6. For a non-empty query, \<^verbatim>\<open>search_locations\<close> calls \<^verbatim>\<open>fetch\<close> once, with
  \<^verbatim>\<open>search.json\<close> and the dictionary holding only \<^verbatim>\<open>q\<close>; whatever value that call returns
  comes back as the only entry, under \<^verbatim>\<open>items\<close>, of the returned mapping, and a failure
  of that call is the failure of \<^verbatim>\<open>search_locations\<close>.
\<close>

theorem search_locations_wraps_items:
  assumes "q \<noteq> []"
  shows "tr_fetches (search_locations e (Some q)) = [(''search.json'', [(''q'', PStr q)])] \<and>
         (\<forall>v. fr_result (fetch e ''search.json'' [(''q'', PStr q)]) = Inr v \<longrightarrow>
            tr_result (search_locations e (Some q)) = Inr (PDict [(''items'', v)])) \<and>
         (\<forall>x. fr_result (fetch e ''search.json'' [(''q'', PStr q)]) = Inl x \<longrightarrow>
            tr_result (search_locations e (Some q)) = Inl x)"
  using assms by (simp add: search_locations_def not_query_def Let_def)

theorem search_locations_wraps_items_witness:
  "tr_result (search_locations (answering (Some ''k'')
       (Response \<lparr>status_code = 200, resp_text = ''[]'',
          resp_json = Some (PList [PDict [(''name'', PStr ''Paris'')]])\<rparr>))
       (Some ''Par'')) =
     Inr (PDict [(''items'', PList [PDict [(''name'', PStr ''Paris'')]])])"
proof -
  have ne: "''Par'' \<noteq> []" by simp
  have f: "fr_result (fetch (answering (Some ''k'')
       (Response \<lparr>status_code = 200, resp_text = ''[]'',
          resp_json = Some (PList [PDict [(''name'', PStr ''Paris'')]])\<rparr>))
       ''search.json'' [(''q'', PStr ''Par'')]) =
     Inr (PList [PDict [(''name'', PStr ''Paris'')]])"
    by (simp add: fetch_def answering_def handle_response_def Let_def)
  show ?thesis
    using search_locations_wraps_items [OF ne, of "answering (Some ''k'')
       (Response \<lparr>status_code = 200, resp_text = ''[]'',
          resp_json = Some (PList [PDict [(''name'', PStr ''Paris'')]])\<rparr>)"] f
    by simp
qed

section \<open>Entries of the dispatch table\<close>

text \<open>
  Claim C7. \<^verbatim>\<open>TOOL_FUNCTIONS\<close> has exactly two entries: \<^verbatim>\<open>get_weather\<close>, bound to
  \<^verbatim>\<open>get_weather_forecast\<close>, and \<^verbatim>\<open>search_locations\<close>, bound to \<^verbatim>\<open>search_locations\<close>;
  no name is bound to \<^verbatim>\<open>get_current_weather\<close>.
\<close>

theorem dispatch_table_entries:
  "length TOOL_FUNCTIONS = 2 \<and>
   map fst TOOL_FUNCTIONS = [''get_weather'', ''search_locations''] \<and>
   map_of TOOL_FUNCTIONS ''get_weather'' = Some Get_weather_forecast \<and>
   map_of TOOL_FUNCTIONS ''search_locations'' = Some Search_locations \<and>
   Get_current_weather \<notin> snd ` set TOOL_FUNCTIONS"
  by (simp add: TOOL_FUNCTIONS_def)

section \<open>Failures of the request\<close>

lemma fetch_non_200:
  assumes "WEATHER_API_KEY e = Some k" and "k \<noteq> []"
    and "client_get e (''https://api.weatherapi.com/v1/'' @ endpoint)
           (dict_set ps ''key'' (PStr k)) = Response r"
  shows "fr_result (fetch e endpoint ps) = handle_response e r"
  using assms(3) by (simp add: fetch_with_key [OF assms(1,2)])

text \<open>
  Claim C8. With a key configured, a request that fails at the transport layer makes
  \<^verbatim>\<open>fetch\<close> raise a \<^verbatim>\<open>ValueError\<close> whose message is \<^verbatim>\<open>Request error: \<close> followed by the text
  of the underlying exception; no response with a status other than 200, in any
  environment, makes \<^verbatim>\<open>fetch\<close> raise that same failure.
\<close>

theorem transport_error_message:
  assumes "WEATHER_API_KEY e = Some k" and "k \<noteq> []"
    and "client_get e (''https://api.weatherapi.com/v1/'' @ endpoint)
           (dict_set ps ''key'' (PStr k)) = RequestError c"
  shows "fr_result (fetch e endpoint ps) = Inl (ValueError (''Request error: '' @ c)) \<and>
         (\<forall>e' k' endpoint' ps' r.
            WEATHER_API_KEY e' = Some k' \<and> k' \<noteq> [] \<and>
            client_get e' (''https://api.weatherapi.com/v1/'' @ endpoint')
              (dict_set ps' ''key'' (PStr k')) = Response r \<and>
            status_code r \<noteq> 200 \<longrightarrow>
            fr_result (fetch e' endpoint' ps') \<noteq> fr_result (fetch e endpoint ps))"
proof -
  have a: "fr_result (fetch e endpoint ps) = Inl (ValueError (''Request error: '' @ c))"
    using assms(3) by (simp add: fetch_with_key [OF assms(1,2)])
  have b: "fr_result (fetch e' endpoint' ps') \<noteq> fr_result (fetch e endpoint ps)"
    if k': "WEATHER_API_KEY e' = Some k'" "k' \<noteq> []"
      and r: "client_get e' (''https://api.weatherapi.com/v1/'' @ endpoint')
              (dict_set ps' ''key'' (PStr k')) = Response r"
      and s: "status_code r \<noteq> 200"
    for e' k' endpoint' ps' r
  proof -
    from handle_response_non_200 [OF s, of e']
    obtain m where "handle_response e' r = Inl (ValueError (''Unexpected error: '' @ m))"
      by blast
    with fetch_non_200 [OF k' r] a show ?thesis by simp
  qed
  from a b show ?thesis by blast
qed

theorem transport_error_message_witness:
  "fr_result (fetch (answering (Some ''k'') (RequestError ''timed out'')) ''current.json''
       [(''q'', PStr ''Paris'')]) = Inl (ValueError ''Request error: timed out'') \<and>
   fr_result (fetch (answering (Some ''k'')
       (Response \<lparr>status_code = 403, resp_text = ''forbidden'', resp_json = None\<rparr>))
       ''current.json'' [(''q'', PStr ''Paris'')]) \<noteq>
   fr_result (fetch (answering (Some ''k'') (RequestError ''timed out'')) ''current.json''
       [(''q'', PStr ''Paris'')])"
proof -
  have k: "''k'' \<noteq> []" by simp
  have a1: "WEATHER_API_KEY (answering (Some ''k'') (RequestError ''timed out'')) = Some ''k''"
    by (simp add: answering_def)
  have a2: "client_get (answering (Some ''k'') (RequestError ''timed out''))
       (''https://api.weatherapi.com/v1/'' @ ''current.json'')
       (dict_set [(''q'', PStr ''Paris'')] ''key'' (PStr ''k'')) = RequestError ''timed out''"
    by (simp add: answering_def)
  have b: "WEATHER_API_KEY (answering (Some ''k'')
       (Response \<lparr>status_code = 403, resp_text = ''forbidden'', resp_json = None\<rparr>)) = Some ''k'' \<and>
     ''k'' \<noteq> [] \<and>
     client_get (answering (Some ''k'')
       (Response \<lparr>status_code = 403, resp_text = ''forbidden'', resp_json = None\<rparr>))
       (''https://api.weatherapi.com/v1/'' @ ''current.json'')
       (dict_set [(''q'', PStr ''Paris'')] ''key'' (PStr ''k'')) =
       Response \<lparr>status_code = 403, resp_text = ''forbidden'', resp_json = None\<rparr> \<and>
     status_code \<lparr>status_code = 403, resp_text = ''forbidden'', resp_json = None\<rparr> \<noteq> 200"
    by (simp add: answering_def)
  note t = transport_error_message [OF a1 k a2]
  from t have t1: "fr_result (fetch (answering (Some ''k'') (RequestError ''timed out''))
       ''current.json'' [(''q'', PStr ''Paris'')]) =
       Inl (ValueError (''Request error: '' @ ''timed out''))"
    by blast
  from t b have t2: "fr_result (fetch (answering (Some ''k'')
       (Response \<lparr>status_code = 403, resp_text = ''forbidden'', resp_json = None\<rparr>))
       ''current.json'' [(''q'', PStr ''Paris'')]) \<noteq>
     fr_result (fetch (answering (Some ''k'') (RequestError ''timed out'')) ''current.json''
       [(''q'', PStr ''Paris'')])"
    by blast
  from t1 t2 show ?thesis by simp
qed

section \<open>Responses with another status\<close>

text \<open>
  Claim C4 asks that the failure for a status other than 200 carry the upstream detail
  field when the body has one and be built from the raw response text when it has none.
  The chain of \<^verbatim>\<open>.get\<close> defaults reaches the raw text for a body that does not parse, for a
  falsy body, for a mapping without \<^verbatim>\<open>error\<close> and for an \<^verbatim>\<open>error\<close> mapping without
  \<^verbatim>\<open>message\<close>, but not where \<^verbatim>\<open>error\<close> is bound to something other than a mapping. At a
  response of status 403 whose body is the JSON mapping with \<^verbatim>\<open>error\<close> bound to the string
  \<^verbatim>\<open>Invalid key\<close>, the detail field is absent, \<^verbatim>\<open>.get\<close> on the string raises AttributeError,
  and the message of the failure is the text of that AttributeError: the raw response
  text does not occur in it.
\<close>

theorem upstream_detail_absent_failing_input:
  \<open>detail_field \<lparr>status_code = 403, resp_text = ''{"error": "Invalid key"}'',
       resp_json = Some (PDict [(''error'', PStr ''Invalid key'')])\<rparr> = None \<and>
   fr_result (fetch (answering (Some ''k'')
       (Response \<lparr>status_code = 403, resp_text = ''{"error": "Invalid key"}'',
          resp_json = Some (PDict [(''error'', PStr ''Invalid key'')])\<rparr>))
       ''current.json'' [(''q'', PStr ''Paris'')]) =
     Inl (ValueError (''Unexpected error: '' @ quote # ''str'' @ quote #
            '' object has no attribute '' @ quote # ''get'' @ [quote])) \<and>
   \<not> sublist ''{"error": "Invalid key"}''
       (''Unexpected error: '' @ quote # ''str'' @ quote #
            '' object has no attribute '' @ quote # ''get'' @ [quote])\<close>
  by (simp add: detail_field_def fetch_def answering_def handle_response_def error_detail_def
        Let_def quote_def sublist_code)

text \<open>
  The paths on which the lookup does what it is written for. With a key configured,
  every response whose status is not 200 makes \<^verbatim>\<open>fetch\<close> fail. When the body is a mapping
  whose \<^verbatim>\<open>error\<close> entry is a mapping with a \<^verbatim>\<open>message\<close> entry, the message of the failure
  ends with that detail; for the body with detail \<^verbatim>\<open>Invalid key\<close> it contains
  \<^verbatim>\<open>Invalid key\<close>. When the body does not parse as JSON, or parses to a falsy value, or to
  a mapping without \<^verbatim>\<open>error\<close>, or to a mapping whose \<^verbatim>\<open>error\<close> entry is a mapping without
  \<^verbatim>\<open>message\<close>, the message ends with the raw response text.
\<close>

lemma upstream_error_message:
  assumes "WEATHER_API_KEY e = Some k" and "k \<noteq> []"
    and "client_get e (''https://api.weatherapi.com/v1/'' @ endpoint)
           (dict_set ps ''key'' (PStr k)) = Response r"
    and "status_code r \<noteq> 200"
  shows "(\<exists>msg. fr_result (fetch e endpoint ps) = Inl (ValueError msg)) \<and>
         (\<forall>m. detail_field r = Some m \<longrightarrow>
            fr_result (fetch e endpoint ps) =
              Inl (ValueError (''Unexpected error: WeatherAPI error: '' @ py_str e m))) \<and>
         (resp_json r =
            Some (PDict [(''error'', PDict [(''message'', PStr ''Invalid key'')])]) \<longrightarrow>
            (\<exists>msg. fr_result (fetch e endpoint ps) = Inl (ValueError msg) \<and>
                   sublist ''Invalid key'' msg)) \<and>
         (resp_json r = None \<or>
          (\<exists>j. resp_json r = Some j \<and> \<not> truthy j) \<or>
          (\<exists>d. resp_json r = Some (PDict d) \<and> map_of d ''error'' = None) \<or>
          (\<exists>d err. resp_json r = Some (PDict d) \<and> map_of d ''error'' = Some (PDict err) \<and>
                   map_of err ''message'' = None) \<longrightarrow>
            fr_result (fetch e endpoint ps) =
              Inl (ValueError (''Unexpected error: WeatherAPI error: '' @ resp_text r)))"
proof -
  note f = fetch_non_200 [OF assms(1,2,3)]
  have fails: "\<exists>msg. fr_result (fetch e endpoint ps) = Inl (ValueError msg)"
    using f handle_response_non_200 [OF assms(4), of e] by auto
  have a: "fr_result (fetch e endpoint ps) =
             Inl (ValueError (''Unexpected error: WeatherAPI error: '' @ py_str e m))"
    if "detail_field r = Some m" for m
    using f handle_response_detail [OF assms(4) that] by simp
  have b: "\<exists>msg. fr_result (fetch e endpoint ps) = Inl (ValueError msg) \<and>
             sublist ''Invalid key'' msg"
    if j: "resp_json r =
            Some (PDict [(''error'', PDict [(''message'', PStr ''Invalid key'')])])"
  proof -
    from j have "detail_field r = Some (PStr ''Invalid key'')"
      by (simp add: detail_field_def)
    from a [OF this]
    have "fr_result (fetch e endpoint ps) =
            Inl (ValueError (''Unexpected error: WeatherAPI error: '' @ ''Invalid key''))"
      by (simp add: py_str_def)
    moreover have "sublist ''Invalid key''
                     (''Unexpected error: WeatherAPI error: '' @ ''Invalid key'')"
      using sublist_appendI [of "''Invalid key''" "''Unexpected error: WeatherAPI error: ''" "[]"]
      by simp
    ultimately show ?thesis by blast
  qed
  have c: "fr_result (fetch e endpoint ps) =
             Inl (ValueError (''Unexpected error: WeatherAPI error: '' @ resp_text r))"
    if t: "resp_json r = None \<or>
          (\<exists>j. resp_json r = Some j \<and> \<not> truthy j) \<or>
          (\<exists>d. resp_json r = Some (PDict d) \<and> map_of d ''error'' = None) \<or>
          (\<exists>d err. resp_json r = Some (PDict d) \<and> map_of d ''error'' = Some (PDict err) \<and>
                   map_of err ''message'' = None)"
  proof -
    from t have "error_detail (case resp_json r of None \<Rightarrow> PNone | Some j \<Rightarrow> j) (resp_text r) =
                   Inr (PStr (resp_text r))"
      by (auto simp: error_detail_falsy error_detail_no_error error_detail_no_message)
    from handle_response_text [OF assms(4) this, of e] f show ?thesis by simp
  qed
  from fails a b c show ?thesis by blast
qed

lemma upstream_error_message_example:
  \<open>fr_result (fetch (answering (Some ''k'')
       (Response \<lparr>status_code = 403, resp_text = ''{"error":{"message":"Invalid key"}}'',
          resp_json = Some (PDict [(''error'', PDict [(''message'', PStr ''Invalid key'')])])\<rparr>))
       ''current.json'' [(''q'', PStr ''Paris'')]) =
     Inl (ValueError ''Unexpected error: WeatherAPI error: Invalid key'') \<and>
   fr_result (fetch (answering (Some ''k'')
       (Response \<lparr>status_code = 502, resp_text = ''Bad Gateway'', resp_json = None\<rparr>))
       ''current.json'' [(''q'', PStr ''Paris'')]) =
     Inl (ValueError ''Unexpected error: WeatherAPI error: Bad Gateway'')\<close>
proof -
  have k: "''k'' \<noteq> []" by simp
  have a1: \<open>WEATHER_API_KEY (answering (Some ''k'')
       (Response \<lparr>status_code = 403, resp_text = ''{"error":{"message":"Invalid key"}}'',
          resp_json = Some (PDict [(''error'', PDict [(''message'', PStr ''Invalid key'')])])\<rparr>))
       = Some ''k''\<close>
    by (simp add: answering_def)
  have a2: \<open>client_get (answering (Some ''k'')
       (Response \<lparr>status_code = 403, resp_text = ''{"error":{"message":"Invalid key"}}'',
          resp_json = Some (PDict [(''error'', PDict [(''message'', PStr ''Invalid key'')])])\<rparr>))
       (''https://api.weatherapi.com/v1/'' @ ''current.json'')
       (dict_set [(''q'', PStr ''Paris'')] ''key'' (PStr ''k'')) =
     Response \<lparr>status_code = 403, resp_text = ''{"error":{"message":"Invalid key"}}'',
          resp_json = Some (PDict [(''error'', PDict [(''message'', PStr ''Invalid key'')])])\<rparr>\<close>
    by (simp add: answering_def)
  have a3: \<open>status_code \<lparr>status_code = 403,
          resp_text = ''{"error":{"message":"Invalid key"}}'',
          resp_json = Some (PDict [(''error'', PDict [(''message'', PStr ''Invalid key'')])])\<rparr>
        \<noteq> 200\<close>
    by simp
  have a4: \<open>detail_field \<lparr>status_code = 403,
          resp_text = ''{"error":{"message":"Invalid key"}}'',
          resp_json = Some (PDict [(''error'', PDict [(''message'', PStr ''Invalid key'')])])\<rparr>
        = Some (PStr ''Invalid key'')\<close>
    by (simp add: detail_field_def)
  have b1: "WEATHER_API_KEY (answering (Some ''k'')
       (Response \<lparr>status_code = 502, resp_text = ''Bad Gateway'', resp_json = None\<rparr>))
       = Some ''k''"
    by (simp add: answering_def)
  have b2: "client_get (answering (Some ''k'')
       (Response \<lparr>status_code = 502, resp_text = ''Bad Gateway'', resp_json = None\<rparr>))
       (''https://api.weatherapi.com/v1/'' @ ''current.json'')
       (dict_set [(''q'', PStr ''Paris'')] ''key'' (PStr ''k'')) =
     Response \<lparr>status_code = 502, resp_text = ''Bad Gateway'', resp_json = None\<rparr>"
    by (simp add: answering_def)
  have b3: "status_code \<lparr>status_code = 502, resp_text = ''Bad Gateway'', resp_json = None\<rparr>
        \<noteq> 200"
    by simp
  from upstream_error_message [OF a1 k a2 a3] a4
  have x: \<open>fr_result (fetch (answering (Some ''k'')
       (Response \<lparr>status_code = 403, resp_text = ''{"error":{"message":"Invalid key"}}'',
          resp_json = Some (PDict [(''error'', PDict [(''message'', PStr ''Invalid key'')])])\<rparr>))
       ''current.json'' [(''q'', PStr ''Paris'')]) =
     Inl (ValueError (''Unexpected error: WeatherAPI error: '' @ ''Invalid key''))\<close>
    by (simp add: py_str_def)
  from upstream_error_message [OF b1 k b2 b3]
  have y: "fr_result (fetch (answering (Some ''k'')
       (Response \<lparr>status_code = 502, resp_text = ''Bad Gateway'', resp_json = None\<rparr>))
       ''current.json'' [(''q'', PStr ''Paris'')]) =
     Inl (ValueError (''Unexpected error: WeatherAPI error: '' @ ''Bad Gateway''))"
    by simp
  from x y show ?thesis by simp
qed

end
